theory Spec2Isabelle
  imports Main
begin

section \<open>Operands, instructions and the translation builder\<close>

text \<open>
  Modelled from the spec: the operand model and the instruction model live in the BARF
  library (\<^verbatim>\<open>ReilRegisterOperand\<close>, \<^verbatim>\<open>ReilImmediateOperand\<close>, \<^verbatim>\<open>ReilBuilder\<close>), which
  \<^verbatim>\<open>behavior_parser.py\<close> imports. An operand is a register, an immediate or a temporary,
  each with a bit width; an instruction is an opcode with source operands and a
  destination operand.
\<close>

datatype operand =
    Register string nat
  | Immediate int nat
  | Temporary string nat

fun operand_size :: "operand \<Rightarrow> nat" where
  "operand_size (Register name w) = w"
| "operand_size (Immediate v w) = w"
| "operand_size (Temporary name w) = w"

fun operand_name :: "operand \<Rightarrow> string option" where
  "operand_name (Register name w) = Some name"
| "operand_name (Immediate v w) = None"
| "operand_name (Temporary name w) = Some name"

datatype opcode = ADD | STORE

datatype instruction = Instr (mnemonic: opcode) (sources: "operand list") (dest: operand)

text \<open>Modelled from the spec: \<^verbatim>\<open>gen_add(src1, src2, dst)\<close> and \<^verbatim>\<open>gen_str(src, dst)\<close> of the
  BARF instruction builder: ADD combines two sources into the destination, STORE (the
  mnemonic of \<^verbatim>\<open>gen_str\<close>) moves one source into the destination.\<close>

definition gen_add :: "operand \<Rightarrow> operand \<Rightarrow> operand \<Rightarrow> instruction" where
  "gen_add src1 src2 dst = Instr ADD [src1, src2] dst"

definition gen_str :: "operand \<Rightarrow> operand \<Rightarrow> instruction" where
  "gen_str src dst = Instr STORE [src] dst"

text \<open>\<^verbatim>\<open>hexagon_size = 32\<close>\<close>

definition hexagon_size :: nat where
  "hexagon_size = 32"

text \<open>
  \<^verbatim>\<open>HexagonTranslationBuilder\<close>: the instruction list \<^verbatim>\<open>_instructions\<close> of the base class
  and the field \<^verbatim>\<open>_value\<close>. Python is dynamically typed: \<^verbatim>\<open>set_value\<close> stores whatever it
  is given, and \<^verbatim>\<open>p_statementassign\<close> gives it a builder, so a stored value is an operand
  or a builder. \<^verbatim>\<open>None\<close> is the unset value.
\<close>

datatype builder = Builder (instructions: "instruction list") (val: "pyvalue option")
and pyvalue = VOperand operand | VBuilder builder

datatype tok_value = VStr string | VInt int

text \<open>
  The exceptions of the source. \<^verbatim>\<open>t_error\<close> and \<^verbatim>\<open>p_error\<close> both raise
  \<^verbatim>\<open>UnknownBehaviorException\<close>; the two constructors keep the data their messages are
  formatted from: \<^verbatim>\<open>"Illegal character {c} in: {rest}"\<close> (the spec's LexError) and
  \<^verbatim>\<open>"Syntax error at {value}"\<close> or \<^verbatim>\<open>"Syntax error at EOF"\<close> (the spec's ParseError).
  \<^verbatim>\<open>UnexpectedException\<close> is raised by \<^verbatim>\<open>get_value\<close> (the spec's UnsetValueError).
  \<open>ValueError\<close> is what \<^verbatim>\<open>int(s, 16)\<close> raises on a string that is no number, and
  \<open>InternalError\<close> stands for what Python raises when a semantic action meets a value of
  the wrong type (a builder where an operand is expected, a token where a builder is
  expected) or the parser misses a table entry; the grammar never leads there.
\<close>

datatype error =
    IllegalCharacter char string
  | SyntaxError "tok_value option"
  | UnexpectedException
  | ValueError
  | InternalError

text \<open>\<^verbatim>\<open>HexagonTranslationBuilder.__init__\<close>: no instructions, \<^verbatim>\<open>_value = None\<close>.\<close>

definition HexagonTranslationBuilder :: builder where
  "HexagonTranslationBuilder = Builder [] None"

text \<open>\<^verbatim>\<open>TranslationBuilder.add\<close> (modelled from the spec: appends one instruction).\<close>

definition add :: "builder \<Rightarrow> instruction \<Rightarrow> builder" where
  "add b i = Builder (instructions b @ [i]) (val b)"

definition extend_instructions :: "builder \<Rightarrow> builder \<Rightarrow> builder" where
  "extend_instructions b tb = Builder (instructions b @ instructions tb) (val b)"

definition set_value :: "builder \<Rightarrow> pyvalue \<Rightarrow> builder" where
  "set_value b v = Builder (instructions b) (Some v)"

definition get_value :: "builder \<Rightarrow> error + pyvalue" where
  "get_value b = (case val b of None \<Rightarrow> Inl UnexpectedException | Some v \<Rightarrow> Inr v)"

text \<open>The builders on which \<^verbatim>\<open>set_value\<close> has never been called: a new one, and what
  \<^verbatim>\<open>add\<close> and \<^verbatim>\<open>extend_instructions\<close> make of such a builder.\<close>

inductive never_set :: "builder \<Rightarrow> bool" where
  fresh: "never_set HexagonTranslationBuilder"
| added: "never_set b \<Longrightarrow> never_set (add b i)"
| extended: "never_set b \<Longrightarrow> never_set (extend_instructions b tb)"

subsection \<open>The temporary allocator\<close>

text \<open>
  Modelled from the spec: \<^verbatim>\<open>VariableNamer("t", separator="")\<close> of BARF, held in the
  module-level \<^verbatim>\<open>_ir_name_generator\<close>. Its state is one counter, threaded through every
  function that can allocate; the name issued at counter \<open>n\<close> is \<open>t\<close> followed by the
  decimal digits of \<open>n\<close>, and each request advances the counter by one.
\<close>

definition digit_char :: "nat \<Rightarrow> char" where
  "digit_char d = ''0123456789'' ! d"

fun str_nat :: "nat \<Rightarrow> string" where
  "str_nat n = (if n < 10 then [digit_char n] else str_nat (n div 10) @ [digit_char (n mod 10)])"

declare str_nat.simps [simp del]

definition get_next :: "nat \<Rightarrow> string \<times> nat" where
  "get_next n = (CHR ''t'' # str_nat n, Suc n)"

text \<open>\<^verbatim>\<open>TranslationBuilder.temporal(size)\<close>: a fresh temporary of the given width.\<close>

definition temporal :: "nat \<Rightarrow> nat \<Rightarrow> operand \<times> nat" where
  "temporal w n = (case get_next n of (name, n') \<Rightarrow> (Temporary name w, n'))"

section \<open>The lexer\<close>

text \<open>
  The token types that have a lexer rule. The other names of the \<^verbatim>\<open>tokens\<close> list
  (NAME, IMM_OP, ID, MOD, LOR, MODEQUAL, ARROW, LBRACKET, IF, ...) have no rule and are
  never produced.
\<close>

datatype tok_type =
    MEM_ACCESS | REG_EA | REG | IMM
  | PLUS | MINUS | TIMES | DIVIDE | OR | AND | NOT | XOR | LOG_NOT | LSHIFT | RSHIFT
  | LT | GT | LE | GE | EQ | NE
  | EQUALS | TIMESEQUAL | DIVEQUAL | PLUSEQUAL | MINUSEQUAL
  | LSHIFTEQUAL | RSHIFTEQUAL | ANDEQUAL | OREQUAL | XOREQUAL
  | PLUSPLUS | MINUSMINUS | CONDOP
  | LPAREN | RPAREN | LBRACE | RBRACE | COMMA | PERIOD | SEMI | COLON

datatype token = Token (type: tok_type) (tvalue: tok_value)

text \<open>\<^verbatim>\<open>t_ignore = ' \t\x0c'\<close>\<close>

definition t_ignore :: string where
  "t_ignore = [CHR '' '', CHR 0x09, CHR 0x0C]"

text \<open>The character classes of the patterns: \<^verbatim>\<open>\w\<close> (ASCII, as in Python 2, for which
  the module is written), \<^verbatim>\<open>[a-fA-F0-9]\<close> and \<^verbatim>\<open>[RPNMC]\<close>.\<close>

definition is_word :: "char \<Rightarrow> bool" where
  "is_word c = (c \<in> set ''abcdefghijklmnopqrstuvwxyzABCDEFGHIJKLMNOPQRSTUVWXYZ0123456789_'')"

definition is_hex :: "char \<Rightarrow> bool" where
  "is_hex c = (c \<in> set ''abcdefABCDEF0123456789'')"

definition is_reg_letter :: "char \<Rightarrow> bool" where
  "is_reg_letter c = (c \<in> set ''RPNMC'')"

text \<open>Matching a literal at the start of the input: the rest of the input, if it matches.\<close>

fun strip_prefix :: "string \<Rightarrow> string \<Rightarrow> string option" where
  "strip_prefix [] s = Some s"
| "strip_prefix (p # ps) [] = None"
| "strip_prefix (p # ps) (c # cs) = (if p = c then strip_prefix ps cs else None)"

text \<open>
  Each pattern is a function from the input to the matched lexeme, if any; the rest of the
  input is what follows the lexeme.

  \<^verbatim>\<open>\n+\<close>, \<^verbatim>\<open>\*EA\<close>, \<^verbatim>\<open>EA\<close>, \<^verbatim>\<open>[RPNMC]\w{1,2}(\.new)?\<close> and \<^verbatim>\<open>(0x)?[a-fA-F0-9]+\<close>.
  The quantifiers are greedy. In the register pattern no backtracking can change the
  match: \<^verbatim>\<open>\w{1,2}\<close> takes two word characters when there are two, and the optional
  suffix never fails. In the immediate pattern the prefix \<^verbatim>\<open>0x\<close> is taken when a hex digit
  follows it; otherwise the matcher backtracks and matches the digits from the start
  (so \<^verbatim>\<open>0xZ\<close> matches \<^verbatim>\<open>0\<close>).
\<close>

definition re_newline :: "string \<Rightarrow> string option" where
  "re_newline s =
     (let m = takeWhile (\<lambda>c. c = CHR 0x0A) s in if m = [] then None else Some m)"

definition re_literal :: "string \<Rightarrow> string \<Rightarrow> string option" where
  "re_literal lit s = (case strip_prefix lit s of None \<Rightarrow> None | Some r \<Rightarrow> Some lit)"

fun re_REG :: "string \<Rightarrow> string option" where
  "re_REG (c # a # s) =
     (if is_reg_letter c \<and> is_word a then
        (let (w, r) = (case s of
                         b # s' \<Rightarrow> if is_word b then ([a, b], s') else ([a], s)
                       | [] \<Rightarrow> ([a], s))
         in (case strip_prefix ''.new'' r of
               Some r' \<Rightarrow> Some (c # w @ ''.new'')
             | None \<Rightarrow> Some (c # w)))
      else None)"
| "re_REG s = None"

definition re_IMM :: "string \<Rightarrow> string option" where
  "re_IMM s =
     (let plain = takeWhile is_hex s in
      case strip_prefix ''0x'' s of
        Some r \<Rightarrow>
          if takeWhile is_hex r \<noteq> [] then Some (''0x'' @ takeWhile is_hex r)
          else if plain \<noteq> [] then Some plain else None
      | None \<Rightarrow> if plain \<noteq> [] then Some plain else None)"

text \<open>
  The rules in the order PLY tries them: the rules given as functions in the order of
  their definition, then the rules given as strings by decreasing length of the pattern
  text (\<^verbatim>\<open>\+\+\<close> has length 4, \<^verbatim>\<open>\+=\<close> has 3, \<^verbatim>\<open>\+\<close> has 2, \<^verbatim>\<open>-\<close> has 1). Two string patterns
  of equal length never match at the same place, so their mutual order is immaterial.
  The first rule that matches wins.
\<close>

datatype rule = R_newline | R_MEM_ACCESS | R_REG_EA | R_REG | R_IMM | R_string tok_type

definition string_rules :: "(string \<times> tok_type) list" where
  "string_rules =
     [(''++'', PLUSPLUS),
      (''*='', TIMESEQUAL), (''+='', PLUSEQUAL), (''<<='', LSHIFTEQUAL),
      (''>>='', RSHIFTEQUAL), (''|='', OREQUAL), (''^='', XOREQUAL),
      (''+'', PLUS), (''*'', TIMES), (''|'', OR), (''^'', XOR),
      (''<<'', LSHIFT), (''>>'', RSHIFT), (''<='', LE), (''>='', GE),
      (''=='', EQ), (''!='', NE), (''/='', DIVEQUAL), (''-='', MINUSEQUAL),
      (''&='', ANDEQUAL), (''--'', MINUSMINUS), (''?'', CONDOP),
      (''('', LPAREN), ('')'', RPAREN), (''{'', LBRACE), (''}'', RBRACE),
      (''.'', PERIOD),
      (''-'', MINUS), (''/'', DIVIDE), (''&'', AND), (''!'', NOT), (''~'', LOG_NOT),
      (''<'', LT), (''>'', GT), (''='', EQUALS), ('','', COMMA), ('';'', SEMI),
      ('':'', COLON)]"

definition function_rules :: "(rule \<times> (string \<Rightarrow> string option)) list" where
  "function_rules =
     [(R_newline, re_newline),
      (R_MEM_ACCESS, re_literal ''*EA''),
      (R_REG_EA, re_literal ''EA''),
      (R_REG, re_REG),
      (R_IMM, re_IMM)]"

definition master_rules :: "(rule \<times> (string \<Rightarrow> string option)) list" where
  "master_rules =
     function_rules @ map (\<lambda>(lit, ty). (R_string ty, re_literal lit)) string_rules"

fun first_match ::
  "(rule \<times> (string \<Rightarrow> string option)) list \<Rightarrow> string \<Rightarrow> (rule \<times> string) option" where
  "first_match [] s = None"
| "first_match ((r, re) # rs) s =
     (case re s of Some m \<Rightarrow> Some (r, m) | None \<Rightarrow> first_match rs s)"

definition master_match :: "string \<Rightarrow> (rule \<times> string) option" where
  "master_match s = first_match master_rules s"

text \<open>
  \<^verbatim>\<open>re.sub('0x', '', s)\<close> removes every occurrence of \<^verbatim>\<open>0x\<close>, scanning from the left, and
  \<^verbatim>\<open>int(s, 16)\<close> reads a run of hexadecimal digits (it raises \<^verbatim>\<open>ValueError\<close> on the empty
  string and on any other character; signs, spaces and underscores never reach it from
  \<^verbatim>\<open>t_IMM\<close>).
\<close>

fun re_sub_0x :: "string \<Rightarrow> string" where
  "re_sub_0x (a # b # s) =
     (if a = CHR ''0'' \<and> b = CHR ''x'' then re_sub_0x s else a # re_sub_0x (b # s))"
| "re_sub_0x s = s"

definition hex_digit :: "char \<Rightarrow> int" where
  "hex_digit c =
     (if c \<in> set ''0123456789'' then int (of_char c) - 48
      else if c \<in> set ''abcdef'' then int (of_char c) - 87
      else int (of_char c) - 55)"

definition int16 :: "string \<Rightarrow> int option" where
  "int16 s =
     (if s = [] \<or> \<not> list_all is_hex s then None
      else Some (foldl (\<lambda>acc c. 16 * acc + hex_digit c) 0 s))"

text \<open>
  The rule actions: \<^verbatim>\<open>t_newline\<close> returns no token (it only counts lines, which nothing
  reads), \<^verbatim>\<open>t_MEM_ACCESS\<close> replaces the value by \<^verbatim>\<open>'EA'\<close>, \<^verbatim>\<open>t_REG_EA\<close> and \<^verbatim>\<open>t_REG\<close> keep
  the lexeme, \<^verbatim>\<open>t_IMM\<close> converts it, and a string rule keeps the lexeme.
\<close>

definition t_IMM :: "string \<Rightarrow> error + token" where
  "t_IMM lexeme =
     (case int16 (re_sub_0x lexeme) of
        None \<Rightarrow> Inl ValueError
      | Some v \<Rightarrow> Inr (Token IMM (VInt v)))"

fun rule_action :: "rule \<Rightarrow> string \<Rightarrow> error + token option" where
  "rule_action R_newline lexeme = Inr None"
| "rule_action R_MEM_ACCESS lexeme = Inr (Some (Token MEM_ACCESS (VStr ''EA'')))"
| "rule_action R_REG_EA lexeme = Inr (Some (Token REG_EA (VStr lexeme)))"
| "rule_action R_REG lexeme = Inr (Some (Token REG (VStr lexeme)))"
| "rule_action R_IMM lexeme =
     (case t_IMM lexeme of Inl e \<Rightarrow> Inl e | Inr t \<Rightarrow> Inr (Some t))"
| "rule_action (R_string ty) lexeme = Inr (Some (Token ty (VStr lexeme)))"

lemma strip_prefix_length:
  "strip_prefix p s = Some r \<Longrightarrow> length s = length p + length r"
  by (induction p s rule: strip_prefix.induct) (auto split: if_splits)

lemma re_literal_nonempty: "lit \<noteq> [] \<Longrightarrow> re_literal lit s = Some m \<Longrightarrow> m \<noteq> []"
  by (auto simp: re_literal_def split: option.splits)

lemma re_REG_nonempty: "re_REG s = Some m \<Longrightarrow> m \<noteq> []"
  by (induction s rule: re_REG.induct)
     (auto split: if_splits option.splits list.splits prod.splits)

lemma re_IMM_nonempty: "re_IMM s = Some m \<Longrightarrow> m \<noteq> []"
  by (auto simp: re_IMM_def Let_def split: if_splits option.splits)

lemma first_match_nonempty:
  "list_all (\<lambda>(r, re). \<forall>s m. re s = Some m \<longrightarrow> m \<noteq> []) rs \<Longrightarrow>
   first_match rs s = Some (r, m) \<Longrightarrow> m \<noteq> []"
  by (induction rs) (auto split: option.splits)

lemma re_newline_nonempty: "re_newline s = Some m \<Longrightarrow> m \<noteq> []"
  by (auto simp: re_newline_def Let_def split: if_splits)

lemma master_match_nonempty: "master_match s = Some (r, m) \<Longrightarrow> m \<noteq> []"
proof -
  assume a: "master_match s = Some (r, m)"
  have "list_all (\<lambda>(r, re). \<forall>s m. re s = Some m \<longrightarrow> m \<noteq> []) master_rules"
    unfolding master_rules_def function_rules_def string_rules_def
    by (auto simp: re_literal_def split: option.splits
             dest: re_REG_nonempty re_IMM_nonempty re_newline_nonempty)
  with a show ?thesis
    unfolding master_match_def by (rule first_match_nonempty [rotated])
qed

text \<open>
  The lexer. PLY produces tokens on demand; the patterns and actions do not depend on
  what the parser has done, so the token stream is a function of the input alone: the
  tokens up to the end of the input or up to the first position where an exception is
  raised, and that exception. The parser below raises it at the moment it asks for the
  token at that position.
\<close>

function lex_tokens :: "string \<Rightarrow> token list \<times> error option" where
  "lex_tokens [] = ([], None)"
| "lex_tokens (c # cs) =
     (if c \<in> set t_ignore then lex_tokens cs
      else case master_match (c # cs) of
        None \<Rightarrow> ([], Some (IllegalCharacter c (c # cs)))
      | Some (rule, lexeme) \<Rightarrow>
          (case rule_action rule lexeme of
             Inl e \<Rightarrow> ([], Some e)
           | Inr None \<Rightarrow> lex_tokens (drop (length lexeme) (c # cs))
           | Inr (Some tok) \<Rightarrow>
               (case lex_tokens (drop (length lexeme) (c # cs)) of
                  (ts, e) \<Rightarrow> (tok # ts, e))))"
  by pat_completeness auto
termination
proof (relation "measure length")
  show "wf (measure length)" by simp
next
  fix c cs
  show "(cs, c # cs) \<in> measure length" by simp
next
  fix c cs x2 x y x2a
  assume "master_match (c # cs) = Some x2" "(x, y) = x2"
  then have "y \<noteq> []" using master_match_nonempty [of "c # cs" x y] by simp
  then show "(drop (length y) (c # cs), c # cs) \<in> measure length"
    by (cases y) auto
next
  fix c cs x2 x y x2a x2b
  assume "master_match (c # cs) = Some x2" "(x, y) = x2"
  then have "y \<noteq> []" using master_match_nonempty [of "c # cs" x y] by simp
  then show "(drop (length y) (c # cs), c # cs) \<in> measure length"
    by (cases y) auto
qed

declare lex_tokens.simps [simp del]

section \<open>The grammar and its semantic actions\<close>

text \<open>
  What a grammar symbol carries on the parser's stack, and what \<^verbatim>\<open>p[i]\<close> reads: the value
  of a token, or the builder that a semantic action has assigned to \<^verbatim>\<open>p[0]\<close>.
\<close>

datatype sym_value = TokV tok_value | Ctx builder

text \<open>The operand held in a value; a builder is no operand.\<close>

fun the_operand :: "pyvalue \<Rightarrow> error + operand" where
  "the_operand (VOperand x) = Inr x"
| "the_operand (VBuilder b) = Inl InternalError"

text \<open>
  The semantic actions. \<^verbatim>\<open>print_debug\<close> only writes to the log and is left out. Each
  builder is referenced from one stack entry only, so mutation in place is the same as
  returning the updated builder; the counter of the name generator is passed in and
  returned.

  \<^verbatim>\<open>p_statement_expr\<close>, \<^verbatim>\<open>p_statement_list_2\<close>, \<^verbatim>\<open>p_statement_statementassign\<close> and
  \<^verbatim>\<open>p_expression_register\<close> are \<^verbatim>\<open>p[0] = p[1]\<close>.
\<close>

definition p_statement_expr :: "sym_value \<Rightarrow> sym_value" where
  "p_statement_expr p1 = p1"

definition p_statement_list_2 :: "sym_value \<Rightarrow> sym_value \<Rightarrow> sym_value" where
  "p_statement_list_2 p1 p2 = p1"

definition p_statement_statementassign :: "sym_value \<Rightarrow> sym_value" where
  "p_statement_statementassign p1 = p1"

definition p_expression_register :: "sym_value \<Rightarrow> sym_value" where
  "p_expression_register p1 = p1"

text \<open>\<^verbatim>\<open>p_statemenlist\<close>: \<^verbatim>\<open>p[1].extend_instructions(p[3]); p[0] = p[1]\<close>.\<close>

fun p_statemenlist :: "sym_value \<Rightarrow> sym_value \<Rightarrow> sym_value \<Rightarrow> error + sym_value" where
  "p_statemenlist (Ctx b1) p2 (Ctx b3) = Inr (Ctx (extend_instructions b1 b3))"
| "p_statemenlist p1 p2 p3 = Inl InternalError"

text \<open>\<^verbatim>\<open>p_register_reg\<close>: a new builder whose value is the register operand named by
  the token, of width \<^verbatim>\<open>hexagon_size\<close>.\<close>

fun p_register_reg :: "sym_value \<Rightarrow> error + sym_value" where
  "p_register_reg (TokV (VStr name)) =
     Inr (Ctx (set_value HexagonTranslationBuilder (VOperand (Register name hexagon_size))))"
| "p_register_reg p1 = Inl InternalError"

text \<open>
  \<^verbatim>\<open>p_statementassign\<close>:
  \<^verbatim>\<open>p[3].add(p[3]._builder.gen_str(p[3].get_value(), p[1].get_value()))\<close>,
  \<^verbatim>\<open>p[3].set_value(p[1])\<close>, \<^verbatim>\<open>p[0] = p[3]\<close>. The value stored is \<^verbatim>\<open>p[1]\<close>, the builder.
\<close>

fun p_statementassign :: "sym_value \<Rightarrow> sym_value \<Rightarrow> sym_value \<Rightarrow> error + sym_value" where
  "p_statementassign (Ctx b1) p2 (Ctx b3) =
     (case get_value b3 of Inl e \<Rightarrow> Inl e | Inr v3 \<Rightarrow>
     (case get_value b1 of Inl e \<Rightarrow> Inl e | Inr v1 \<Rightarrow>
     (case the_operand v3 of Inl e \<Rightarrow> Inl e | Inr src \<Rightarrow>
     (case the_operand v1 of Inl e \<Rightarrow> Inl e | Inr dst \<Rightarrow>
        Inr (Ctx (set_value (add b3 (gen_str src dst)) (VBuilder b1)))))))"
| "p_statementassign p1 p2 p3 = Inl InternalError"

text \<open>
  \<^verbatim>\<open>p_expression_binop\<close>: \<^verbatim>\<open>p[1].extend_instructions(p[3])\<close>,
  \<^verbatim>\<open>binop_dst = p[1].temporal(hexagon_size)\<close>,
  \<^verbatim>\<open>p[1].add(p[1]._builder.gen_add(p[1].get_value(), p[3].get_value(), binop_dst))\<close>,
  \<^verbatim>\<open>p[1].set_value(binop_dst)\<close>, \<^verbatim>\<open>p[0] = p[1]\<close>. The operator \<^verbatim>\<open>p[2]\<close> is read by the
  debug message only. The temporary is allocated before the values are read, so the
  counter has advanced when reading them fails.
\<close>

fun p_expression_binop ::
  "sym_value \<Rightarrow> sym_value \<Rightarrow> sym_value \<Rightarrow> nat \<Rightarrow> (error + sym_value) \<times> nat" where
  "p_expression_binop (Ctx b1) p2 (Ctx b3) n =
     (let b1' = extend_instructions b1 b3 in
      case temporal hexagon_size n of (binop_dst, n') \<Rightarrow>
     (case get_value b1' of Inl e \<Rightarrow> (Inl e, n') | Inr v1 \<Rightarrow>
     (case get_value b3 of Inl e \<Rightarrow> (Inl e, n') | Inr v3 \<Rightarrow>
     (case the_operand v1 of Inl e \<Rightarrow> (Inl e, n') | Inr src1 \<Rightarrow>
     (case the_operand v3 of Inl e \<Rightarrow> (Inl e, n') | Inr src2 \<Rightarrow>
        (Inr (Ctx (set_value (add b1' (gen_add src1 src2 binop_dst)) (VOperand binop_dst))),
         n'))))))"
| "p_expression_binop p1 p2 p3 n = (Inl InternalError, n)"

section \<open>The parser\<close>

text \<open>
  The productions, named after the functions whose docstrings declare them:
  \<^item> \<^verbatim>\<open>p_statement_expr\<close>: statement : expression
  \<^item> \<^verbatim>\<open>p_statemenlist\<close>: statement : statement SEMI statement
  \<^item> \<^verbatim>\<open>p_statement_list_2\<close>: statement : statement SEMI
  \<^item> \<^verbatim>\<open>p_statement_statementassign\<close>: statement : statement_assign
  \<^item> \<^verbatim>\<open>p_expression_register\<close>: expression : register
  \<^item> \<^verbatim>\<open>p_register_reg\<close>: register : REG
  \<^item> \<^verbatim>\<open>p_statementassign\<close>: statement_assign : register \<open>op\<close> expression, for the ten
    assignment tokens
  \<^item> \<^verbatim>\<open>p_expression_binop\<close>: expression : expression \<open>op\<close> expression, for the seventeen
    operator tokens
  The start symbol is the left-hand side of the first production, statement. No grammar
  rule mentions IMM, MEM_ACCESS, REG_EA, PLUSPLUS, MINUSMINUS, CONDOP or a delimiter other
  than SEMI.
\<close>

datatype production =
    P_statement_expr | P_statemenlist | P_statement_list_2 | P_statement_statementassign
  | P_expression_register | P_register_reg | P_statementassign | P_expression_binop

datatype nonterm = N_statement | N_expression | N_register | N_statement_assign

definition is_binop :: "tok_type \<Rightarrow> bool" where
  "is_binop t = (t \<in> set [PLUS, MINUS, TIMES, DIVIDE, OR, AND, NOT, XOR, LOG_NOT,
                            LSHIFT, RSHIFT, LT, GT, LE, GE, EQ, NE])"

definition is_assign :: "tok_type \<Rightarrow> bool" where
  "is_assign t = (t \<in> set [EQUALS, TIMESEQUAL, DIVEQUAL, PLUSEQUAL, MINUSEQUAL,
                             LSHIFTEQUAL, RSHIFTEQUAL, ANDEQUAL, OREQUAL, XOREQUAL])"

text \<open>
  The LALR(1) automaton that PLY builds for this grammar. A state is named after the
  symbols on the stack that lead to it; its items are (the dot written \<open>.\<close>, \<open>op\<close> an
  assignment token, \<open>bop\<close> an operator token):
  \<^item> \<open>S_start\<close>: the initial state, all productions of statement at their start;
  \<^item> \<open>S_statement\<close>: S' : statement . ; statement : statement . SEMI statement ;
    statement : statement . SEMI
  \<^item> \<open>S_expression\<close>: statement : expression . ; expression : expression . bop expression
  \<^item> \<open>S_statement_assign\<close>: statement : statement_assign .
  \<^item> \<open>S_register\<close>: expression : register . ; statement_assign : register . op expression
  \<^item> \<open>S_REG\<close>: register : REG .
  \<^item> \<open>S_statement_SEMI\<close>: statement : statement SEMI . statement ;
    statement : statement SEMI . ; and all productions of statement at their start
  \<^item> \<open>S_expression_binop bop\<close>: expression : expression bop . expression
  \<^item> \<open>S_register_assign op\<close>: statement_assign : register op . expression
  \<^item> \<open>S_statement_SEMI_statement\<close>: statement : statement SEMI statement . ;
    statement : statement . SEMI statement ; statement : statement . SEMI
  \<^item> \<open>S_expression_binop_expression bop\<close>: expression : expression bop expression . ;
    expression : expression . bop' expression
  \<^item> \<open>S_operand_register\<close>: expression : register .
  \<^item> \<open>S_register_assign_expression op\<close>: statement_assign : register op expression . ;
    expression : expression . bop expression
\<close>

datatype lr_state =
    S_start
  | S_statement
  | S_expression
  | S_statement_assign
  | S_register
  | S_REG
  | S_statement_SEMI
  | S_expression_binop tok_type
  | S_register_assign tok_type
  | S_statement_SEMI_statement
  | S_expression_binop_expression tok_type
  | S_operand_register
  | S_register_assign_expression tok_type

datatype act = Shift lr_state | Reduce production | Accept | Err

text \<open>
  The action table; the lookahead \<open>None\<close> is the end of the input. A reduction is entered
  under the LALR(1) lookaheads of its item: SEMI and the end of input after a statement
  or an assignment, these and the operators after an expression or a register used as an
  expression, and all of them and the assignment tokens after REG. The grammar declares no
  precedence, so PLY resolves each shift/reduce conflict by shifting: on an operator
  after \<open>expression bop expression\<close>, and on SEMI after \<open>statement SEMI statement\<close>.
\<close>

definition ends_statement :: "tok_type option \<Rightarrow> bool" where
  "ends_statement la = (la = None \<or> la = Some SEMI)"

fun action :: "lr_state \<Rightarrow> tok_type option \<Rightarrow> act" where
  "action S_start la = (if la = Some REG then Shift S_REG else Err)"
| "action S_statement la =
     (if la = None then Accept
      else if la = Some SEMI then Shift S_statement_SEMI else Err)"
| "action S_expression la =
     (case la of
        None \<Rightarrow> Reduce P_statement_expr
      | Some t \<Rightarrow> if is_binop t then Shift (S_expression_binop t)
                  else if t = SEMI then Reduce P_statement_expr else Err)"
| "action S_statement_assign la =
     (if ends_statement la then Reduce P_statement_statementassign else Err)"
| "action S_register la =
     (case la of
        None \<Rightarrow> Reduce P_expression_register
      | Some t \<Rightarrow> if is_assign t then Shift (S_register_assign t)
                  else if is_binop t \<or> t = SEMI then Reduce P_expression_register else Err)"
| "action S_REG la =
     (case la of
        None \<Rightarrow> Reduce P_register_reg
      | Some t \<Rightarrow> if is_assign t \<or> is_binop t \<or> t = SEMI then Reduce P_register_reg
                  else Err)"
| "action S_statement_SEMI la =
     (if la = Some REG then Shift S_REG
      else if ends_statement la then Reduce P_statement_list_2 else Err)"
| "action (S_expression_binop bop) la = (if la = Some REG then Shift S_REG else Err)"
| "action (S_register_assign op) la = (if la = Some REG then Shift S_REG else Err)"
| "action S_statement_SEMI_statement la =
     (if la = Some SEMI then Shift S_statement_SEMI
      else if la = None then Reduce P_statemenlist else Err)"
| "action (S_expression_binop_expression bop) la =
     (case la of
        None \<Rightarrow> Reduce P_expression_binop
      | Some t \<Rightarrow> if is_binop t then Shift (S_expression_binop t)
                  else if t = SEMI then Reduce P_expression_binop else Err)"
| "action S_operand_register la =
     (case la of
        None \<Rightarrow> Reduce P_expression_register
      | Some t \<Rightarrow> if is_binop t \<or> t = SEMI then Reduce P_expression_register else Err)"
| "action (S_register_assign_expression op) la =
     (case la of
        None \<Rightarrow> Reduce P_statementassign
      | Some t \<Rightarrow> if is_binop t then Shift (S_expression_binop t)
                  else if t = SEMI then Reduce P_statementassign else Err)"

fun goto :: "lr_state \<Rightarrow> nonterm \<Rightarrow> lr_state option" where
  "goto S_start N_statement = Some S_statement"
| "goto S_start N_expression = Some S_expression"
| "goto S_start N_statement_assign = Some S_statement_assign"
| "goto S_start N_register = Some S_register"
| "goto S_statement_SEMI N_statement = Some S_statement_SEMI_statement"
| "goto S_statement_SEMI N_expression = Some S_expression"
| "goto S_statement_SEMI N_statement_assign = Some S_statement_assign"
| "goto S_statement_SEMI N_register = Some S_register"
| "goto (S_expression_binop bop) N_expression = Some (S_expression_binop_expression bop)"
| "goto (S_expression_binop bop) N_register = Some S_operand_register"
| "goto (S_register_assign op) N_expression = Some (S_register_assign_expression op)"
| "goto (S_register_assign op) N_register = Some S_operand_register"
| "goto s nt = None"

text \<open>
  The stack of the parser, top first: the state entered and the value of the symbol that
  led to it. Below the last entry is the initial state.
\<close>

type_synonym stack = "(lr_state \<times> sym_value) list"

fun top_state :: "stack \<Rightarrow> lr_state" where
  "top_state [] = S_start"
| "top_state ((s, v) # stk) = s"

text \<open>Pushing the left-hand side of a production after a reduction.\<close>

definition push_goto :: "nonterm \<Rightarrow> sym_value \<Rightarrow> stack \<Rightarrow> error + stack" where
  "push_goto nt v stk =
     (case goto (top_state stk) nt of
        None \<Rightarrow> Inl InternalError
      | Some s \<Rightarrow> Inr ((s, v) # stk))"

text \<open>The number of symbols of a production and its left-hand side.\<close>

fun plen :: "production \<Rightarrow> nat" where
  "plen P_statement_expr = 1"
| "plen P_statemenlist = 3"
| "plen P_statement_list_2 = 2"
| "plen P_statement_statementassign = 1"
| "plen P_expression_register = 1"
| "plen P_register_reg = 1"
| "plen P_statementassign = 3"
| "plen P_expression_binop = 3"

fun pname :: "production \<Rightarrow> nonterm" where
  "pname P_statement_expr = N_statement"
| "pname P_statemenlist = N_statement"
| "pname P_statement_list_2 = N_statement"
| "pname P_statement_statementassign = N_statement"
| "pname P_expression_register = N_expression"
| "pname P_register_reg = N_register"
| "pname P_statementassign = N_statement_assign"
| "pname P_expression_binop = N_expression"

text \<open>Calling the function of a production on the values \<^verbatim>\<open>p[1]\<close>, \<^verbatim>\<open>p[2]\<close>, ...;
  the result is \<^verbatim>\<open>p[0]\<close>.\<close>

definition run_action ::
  "production \<Rightarrow> sym_value list \<Rightarrow> nat \<Rightarrow> (error + sym_value) \<times> nat" where
  "run_action p args n =
     (case p of
        P_statement_expr \<Rightarrow>
          (case args of [p1] \<Rightarrow> (Inr (p_statement_expr p1), n)
                      | _ \<Rightarrow> (Inl InternalError, n))
      | P_statemenlist \<Rightarrow>
          (case args of [p1, p2, p3] \<Rightarrow> (p_statemenlist p1 p2 p3, n)
                      | _ \<Rightarrow> (Inl InternalError, n))
      | P_statement_list_2 \<Rightarrow>
          (case args of [p1, p2] \<Rightarrow> (Inr (p_statement_list_2 p1 p2), n)
                      | _ \<Rightarrow> (Inl InternalError, n))
      | P_statement_statementassign \<Rightarrow>
          (case args of [p1] \<Rightarrow> (Inr (p_statement_statementassign p1), n)
                      | _ \<Rightarrow> (Inl InternalError, n))
      | P_expression_register \<Rightarrow>
          (case args of [p1] \<Rightarrow> (Inr (p_expression_register p1), n)
                      | _ \<Rightarrow> (Inl InternalError, n))
      | P_register_reg \<Rightarrow>
          (case args of [p1] \<Rightarrow> (p_register_reg p1, n)
                      | _ \<Rightarrow> (Inl InternalError, n))
      | P_statementassign \<Rightarrow>
          (case args of [p1, p2, p3] \<Rightarrow> (p_statementassign p1 p2 p3, n)
                      | _ \<Rightarrow> (Inl InternalError, n))
      | P_expression_binop \<Rightarrow>
          (case args of [p1, p2, p3] \<Rightarrow> p_expression_binop p1 p2 p3 n
                      | _ \<Rightarrow> (Inl InternalError, n)))"

text \<open>
  A reduction pops as many entries as the production has symbols, runs the semantic
  action on their values (\<^verbatim>\<open>p[1]\<close> is the deepest) and pushes the result under the state
  that the table gives for the left-hand side.
\<close>

definition reduce :: "production \<Rightarrow> stack \<Rightarrow> nat \<Rightarrow> (error + stack) \<times> nat" where
  "reduce p stk n =
     (if length stk < plen p then (Inl InternalError, n)
      else
        case run_action p (rev (map snd (take (plen p) stk))) n of
          (Inl e, n') \<Rightarrow> (Inl e, n')
        | (Inr v, n') \<Rightarrow> (push_goto (pname p) v (drop (plen p) stk), n'))"

text \<open>The lookahead: the type of the next token, or the end of the input.\<close>

definition lookahead :: "token list \<Rightarrow> tok_type option" where
  "lookahead toks = (case toks of [] \<Rightarrow> None | t # ts \<Rightarrow> Some (type t))"

text \<open>
  Every reduction makes the stack lighter in the following weight, which is what makes
  the parser stop: a token weighs 4, a register 3, an expression or an assignment 2 and a
  statement 1.
\<close>

fun state_weight :: "lr_state \<Rightarrow> nat" where
  "state_weight S_REG = 4"
| "state_weight S_statement_SEMI = 4"
| "state_weight (S_expression_binop bop) = 4"
| "state_weight (S_register_assign op) = 4"
| "state_weight S_register = 3"
| "state_weight S_operand_register = 3"
| "state_weight S_expression = 2"
| "state_weight (S_expression_binop_expression bop) = 2"
| "state_weight (S_register_assign_expression op) = 2"
| "state_weight S_statement_assign = 2"
| "state_weight S_statement = 1"
| "state_weight S_statement_SEMI_statement = 1"
| "state_weight S_start = 1"

definition stack_weight :: "stack \<Rightarrow> nat" where
  "stack_weight stk = sum_list (map (\<lambda>e. state_weight (fst e)) stk)"

fun nonterm_weight :: "nonterm \<Rightarrow> nat" where
  "nonterm_weight N_register = 3"
| "nonterm_weight N_expression = 2"
| "nonterm_weight N_statement_assign = 2"
| "nonterm_weight N_statement = 1"

lemma goto_weight: "goto s nt = Some s' \<Longrightarrow> state_weight s' = nonterm_weight nt"
  by (cases "(s, nt)" rule: goto.cases) auto

lemma state_weight_pos: "0 < state_weight s"
  by (cases s) auto

lemma stack_weight_length: "length stk \<le> stack_weight stk"
proof (induction stk)
  case Nil
  show ?case by (simp add: stack_weight_def)
next
  case (Cons e stk)
  then show ?case
    using state_weight_pos [of "fst e"] by (simp add: stack_weight_def)
qed

lemma push_goto_weight:
  "push_goto nt v stk = Inr stk' \<Longrightarrow> stack_weight stk' = nonterm_weight nt + stack_weight stk"
  by (auto simp: push_goto_def stack_weight_def split: option.splits dest: goto_weight)

lemma action_Reduce_weight:
  "action s la = Reduce p \<Longrightarrow> nonterm_weight (pname p) < state_weight s + (plen p - 1)"
  by (cases s) (auto split: if_splits option.splits)

lemma stack_weight_take:
  assumes "0 < k" and "k \<le> length stk"
  shows "state_weight (top_state stk) + (k - 1) \<le> stack_weight (take k stk)"
proof -
  from assms obtain s v rest where stk: "stk = (s, v) # rest"
    by (cases stk) auto
  from assms obtain j where k: "k = Suc j"
    by (cases k) auto
  have "length (take j rest) \<le> stack_weight (take j rest)"
    by (rule stack_weight_length)
  moreover have "length (take j rest) = j"
    using assms stk k by simp
  ultimately show ?thesis
    using stk k by (simp add: stack_weight_def)
qed

lemma plen_pos: "0 < plen p"
  by (cases p) auto

lemma reduce_weight:
  assumes act: "action (top_state stk) la = Reduce p"
    and red: "reduce p stk n = (Inr stk', n')"
  shows "stack_weight stk' < stack_weight stk"
proof -
  from red have len: "plen p \<le> length stk"
    by (auto simp: reduce_def split: if_splits)
  from red len obtain v where "push_goto (pname p) v (drop (plen p) stk) = Inr stk'"
    by (auto simp: reduce_def split: prod.splits sum.splits)
  then have w': "stack_weight stk' = nonterm_weight (pname p) + stack_weight (drop (plen p) stk)"
    by (rule push_goto_weight)
  have "stack_weight stk = stack_weight (take (plen p) stk @ drop (plen p) stk)"
    by simp
  also have "\<dots> = stack_weight (take (plen p) stk) + stack_weight (drop (plen p) stk)"
    unfolding stack_weight_def map_append sum_list_append ..
  finally have w: "stack_weight stk =
      stack_weight (take (plen p) stk) + stack_weight (drop (plen p) stk)" .
  from stack_weight_take [OF plen_pos len] action_Reduce_weight [OF act] w w'
  show ?thesis by linarith
qed

text \<open>
  The parser loop of PLY. No state of this table acts without a lookahead, so each turn
  first needs the next token: when the lexer raises there, the exception leaves the
  parser. A token without an action goes to \<^verbatim>\<open>p_error\<close>, which raises with the value of
  the token, or with EOF at the end of the input. On acceptance the value on top of the
  stack is returned.
\<close>

function yacc_loop ::
  "stack \<Rightarrow> token list \<Rightarrow> error option \<Rightarrow> nat \<Rightarrow> (error + sym_value) \<times> nat" where
  "yacc_loop stk toks fin n =
     (if toks = [] \<and> fin \<noteq> None then (Inl (the fin), n)
      else
        case action (top_state stk) (lookahead toks) of
          Shift s \<Rightarrow>
            (case toks of
               [] \<Rightarrow> (Inl InternalError, n)
             | t # ts \<Rightarrow> yacc_loop ((s, TokV (tvalue t)) # stk) ts fin n)
        | Reduce p \<Rightarrow>
            (case reduce p stk n of
               (Inl e, n') \<Rightarrow> (Inl e, n')
             | (Inr stk', n') \<Rightarrow> yacc_loop stk' toks fin n')
        | Accept \<Rightarrow>
            (case stk of
               [] \<Rightarrow> (Inl InternalError, n)
             | (s, v) # stk' \<Rightarrow> (Inr v, n))
        | Err \<Rightarrow>
            (Inl (SyntaxError (case toks of [] \<Rightarrow> None | t # ts \<Rightarrow> Some (tvalue t))), n))"
  by pat_completeness auto
termination
  by (relation "measures [\<lambda>(stk, toks, fin, n). length toks,
                          \<lambda>(stk, toks, fin, n). stack_weight stk]")
     (auto intro: reduce_weight [OF _ sym])

text \<open>\<^verbatim>\<open>Parser.parse\<close>: \<^verbatim>\<open>return yacc.parse(input, ...)\<close>, from an empty stack, starting
  with the counter of the name generator at \<open>n\<close>.\<close>

definition parse :: "string \<Rightarrow> nat \<Rightarrow> (error + sym_value) \<times> nat" where
  "parse input n = (case lex_tokens input of (toks, fin) \<Rightarrow> yacc_loop [] toks fin n)"

section \<open>What the parser keeps true\<close>

text \<open>
  The stack of the parser is well formed at every turn: each state has been entered from
  a state that leads to it, and the value beside it has the shape its symbol promises: a
  token beside a state entered by a shift, a builder whose value is an operand of width
  32 beside a register or an expression, a builder beside a statement. All operands of
  all instructions held in the builders have width 32.
\<close>

definition operand_ok :: "operand \<Rightarrow> bool" where
  "operand_ok x = (operand_size x = 32)"

definition instr_ok :: "instruction \<Rightarrow> bool" where
  "instr_ok i = (operand_ok (dest i) \<and> list_all operand_ok (sources i))"

definition builder_ok :: "builder \<Rightarrow> bool" where
  "builder_ok b = list_all instr_ok (instructions b)"

fun value_is_operand :: "pyvalue option \<Rightarrow> bool" where
  "value_is_operand (Some (VOperand x)) = operand_ok x"
| "value_is_operand v = False"

fun is_stmt :: "sym_value \<Rightarrow> bool" where
  "is_stmt (Ctx b) = builder_ok b"
| "is_stmt (TokV v) = False"

fun is_expr :: "sym_value \<Rightarrow> bool" where
  "is_expr (Ctx b) = (builder_ok b \<and> value_is_operand (val b))"
| "is_expr (TokV v) = False"

fun is_tok :: "sym_value \<Rightarrow> bool" where
  "is_tok (TokV v) = True"
| "is_tok (Ctx b) = False"

fun is_name :: "sym_value \<Rightarrow> bool" where
  "is_name (TokV (VStr name)) = True"
| "is_name v = False"

fun is_expr_state :: "lr_state \<Rightarrow> bool" where
  "is_expr_state S_expression = True"
| "is_expr_state (S_expression_binop_expression bop) = True"
| "is_expr_state (S_register_assign_expression op) = True"
| "is_expr_state s = False"

fun is_stmt_start :: "lr_state \<Rightarrow> bool" where
  "is_stmt_start S_start = True"
| "is_stmt_start S_statement_SEMI = True"
| "is_stmt_start s = False"

fun is_operand_start :: "lr_state \<Rightarrow> bool" where
  "is_operand_start (S_expression_binop bop) = True"
| "is_operand_start (S_register_assign op) = True"
| "is_operand_start s = False"

fun preds_ok :: "lr_state \<Rightarrow> lr_state \<Rightarrow> bool" where
  "preds_ok S_start prev = False"
| "preds_ok S_statement prev = (prev = S_start)"
| "preds_ok S_expression prev = is_stmt_start prev"
| "preds_ok S_statement_assign prev = is_stmt_start prev"
| "preds_ok S_register prev = is_stmt_start prev"
| "preds_ok S_REG prev = (is_stmt_start prev \<or> is_operand_start prev)"
| "preds_ok S_statement_SEMI prev = (prev = S_statement \<or> prev = S_statement_SEMI_statement)"
| "preds_ok (S_expression_binop bop) prev = is_expr_state prev"
| "preds_ok (S_register_assign op) prev = (prev = S_register)"
| "preds_ok S_statement_SEMI_statement prev = (prev = S_statement_SEMI)"
| "preds_ok (S_expression_binop_expression bop) prev = (prev = S_expression_binop bop)"
| "preds_ok S_operand_register prev = is_operand_start prev"
| "preds_ok (S_register_assign_expression op) prev = (prev = S_register_assign op)"

fun value_ok :: "lr_state \<Rightarrow> sym_value \<Rightarrow> bool" where
  "value_ok S_start v = False"
| "value_ok S_statement v = is_stmt v"
| "value_ok S_expression v = is_expr v"
| "value_ok S_statement_assign v = is_stmt v"
| "value_ok S_register v = is_expr v"
| "value_ok S_REG v = is_name v"
| "value_ok S_statement_SEMI v = is_tok v"
| "value_ok (S_expression_binop bop) v = is_tok v"
| "value_ok (S_register_assign op) v = is_tok v"
| "value_ok S_statement_SEMI_statement v = is_stmt v"
| "value_ok (S_expression_binop_expression bop) v = is_expr v"
| "value_ok S_operand_register v = is_expr v"
| "value_ok (S_register_assign_expression op) v = is_expr v"

fun stack_ok :: "stack \<Rightarrow> bool" where
  "stack_ok [] = True"
| "stack_ok ((s, v) # stk) = (preds_ok s (top_state stk) \<and> value_ok s v \<and> stack_ok stk)"

lemma is_expr_stmt: "is_expr v \<Longrightarrow> is_stmt v"
  by (cases v) auto

lemma is_binop_not_assign: "is_binop t \<Longrightarrow> \<not> is_assign t"
  by (auto simp: is_binop_def is_assign_def)

lemma not_binop_simps [simp]: "\<not> is_binop SEMI" "\<not> is_binop REG" "\<not> is_binop EQUALS"
  "\<not> is_assign SEMI" "\<not> is_assign REG"
  by (auto simp: is_binop_def is_assign_def)

text \<open>Shifting keeps the stack well formed.\<close>

lemma shift_ok:
  assumes "stack_ok stk" and "action (top_state stk) (Some ty) = Shift s"
    and "ty = REG \<longrightarrow> is_name (TokV v)"
  shows "stack_ok ((s, TokV v) # stk)"
  using assms
  by (cases "top_state stk") (auto split: if_splits)


lemma inv1:
  "stack_ok stk \<Longrightarrow> top_state stk = s \<Longrightarrow> s \<noteq> S_start \<Longrightarrow>
   \<exists>v rest. stk = (s, v) # rest \<and> preds_ok s (top_state rest) \<and> value_ok s v \<and> stack_ok rest"
  by (cases stk) auto

lemma is_exprE:
  "is_expr v \<Longrightarrow> \<exists>b x. v = Ctx b \<and> builder_ok b \<and> val b = Some (VOperand x) \<and> operand_ok x"
  by (cases v) (auto elim: value_is_operand.elims)

lemma is_stmtE: "is_stmt v \<Longrightarrow> \<exists>b. v = Ctx b \<and> builder_ok b"
  by (cases v) auto

lemma is_nameE: "is_name v \<Longrightarrow> \<exists>name. v = TokV (VStr name)"
  by (auto elim: is_name.elims)

lemma goto_stmt_start:
  "is_stmt_start s \<Longrightarrow> goto s N_register = Some S_register \<and>
     goto s N_expression = Some S_expression \<and>
     goto s N_statement_assign = Some S_statement_assign \<and>
     (\<exists>s'. goto s N_statement = Some s' \<and> preds_ok s' s \<and> (\<forall>v. value_ok s' v = is_stmt v))"
  by (cases s) auto

lemma goto_operand_start:
  "is_operand_start s \<Longrightarrow> goto s N_register = Some S_operand_register \<and>
     (\<exists>s'. goto s N_expression = Some s' \<and> preds_ok s' s \<and> (\<forall>v. value_ok s' v = is_expr v))"
  by (cases s) auto

lemma reduce_register_reg:
  assumes "stack_ok stk" and "top_state stk = S_REG"
  shows "\<exists>stk'. reduce P_register_reg stk n = (Inr stk', n) \<and> stack_ok stk'"
proof -
  from inv1 [OF assms] obtain v rest where
    stk: "stk = (S_REG, v) # rest" and pr: "preds_ok S_REG (top_state rest)"
    and v: "value_ok S_REG v" and ok: "stack_ok rest" by auto
  from v obtain name where name: "v = TokV (VStr name)" by (auto dest: is_nameE)
  from pr have "is_stmt_start (top_state rest) \<or> is_operand_start (top_state rest)" by simp
  then show ?thesis
  proof
    assume a: "is_stmt_start (top_state rest)"
    with stk name ok goto_stmt_start [OF a] show ?thesis
      by (auto simp: reduce_def run_action_def push_goto_def set_value_def
            HexagonTranslationBuilder_def builder_ok_def operand_ok_def hexagon_size_def)
  next
    assume a: "is_operand_start (top_state rest)"
    with stk name ok goto_operand_start [OF a] show ?thesis
      by (auto simp: reduce_def run_action_def push_goto_def set_value_def
            HexagonTranslationBuilder_def builder_ok_def operand_ok_def hexagon_size_def)
  qed
qed


fun is_stmt_state :: "lr_state \<Rightarrow> bool" where
  "is_stmt_state S_statement = True"
| "is_stmt_state S_statement_SEMI_statement = True"
| "is_stmt_state s = False"

lemma goto_expr_state:
  "is_expr_state s \<Longrightarrow> preds_ok s prev \<Longrightarrow> goto prev N_expression = Some s"
  by (cases s; cases prev) auto

lemma goto_stmt_state:
  "is_stmt_state s \<Longrightarrow> preds_ok s prev \<Longrightarrow> goto prev N_statement = Some s"
  by (cases s; cases prev) auto

lemma value_ok_expr_state: "is_expr_state s \<Longrightarrow> value_ok s v = is_expr v"
  by (cases s) auto

lemma value_ok_stmt_state: "is_stmt_state s \<Longrightarrow> value_ok s v = is_stmt v"
  by (cases s) auto

lemmas reduce_defs = reduce_def run_action_def push_goto_def

lemma reduce_expression_register:
  assumes "stack_ok stk" and "top_state stk = S_register \<or> top_state stk = S_operand_register"
  shows "\<exists>stk'. reduce P_expression_register stk n = (Inr stk', n) \<and> stack_ok stk'"
  using assms(2)
proof
  assume t: "top_state stk = S_register"
  from inv1 [OF assms(1) t] obtain v rest where
    stk: "stk = (S_register, v) # rest" and pr: "is_stmt_start (top_state rest)"
    and v: "is_expr v" and ok: "stack_ok rest" by auto
  with goto_stmt_start [OF pr] show ?thesis
    by (auto simp: reduce_defs p_expression_register_def)
next
  assume t: "top_state stk = S_operand_register"
  from inv1 [OF assms(1) t] obtain v rest where
    stk: "stk = (S_operand_register, v) # rest" and pr: "is_operand_start (top_state rest)"
    and v: "is_expr v" and ok: "stack_ok rest" by auto
  with goto_operand_start [OF pr] show ?thesis
    by (auto simp: reduce_defs p_expression_register_def)
qed

lemma reduce_statement_expr:
  assumes "stack_ok stk" and t: "top_state stk = S_expression"
  shows "\<exists>stk'. reduce P_statement_expr stk n = (Inr stk', n) \<and> stack_ok stk'"
proof -
  from inv1 [OF assms] obtain v rest where
    stk: "stk = (S_expression, v) # rest" and pr: "is_stmt_start (top_state rest)"
    and v: "is_expr v" and ok: "stack_ok rest" by auto
  with goto_stmt_start [OF pr] is_expr_stmt [OF v] show ?thesis
    by (auto simp: reduce_defs p_statement_expr_def)
qed

lemma reduce_statement_statementassign:
  assumes "stack_ok stk" and t: "top_state stk = S_statement_assign"
  shows "\<exists>stk'. reduce P_statement_statementassign stk n = (Inr stk', n) \<and> stack_ok stk'"
proof -
  from inv1 [OF assms] obtain v rest where
    stk: "stk = (S_statement_assign, v) # rest" and pr: "is_stmt_start (top_state rest)"
    and v: "is_stmt v" and ok: "stack_ok rest" by auto
  with goto_stmt_start [OF pr] show ?thesis
    by (auto simp: reduce_defs p_statement_statementassign_def)
qed

text \<open>The statement under a semicolon.\<close>

lemma inv_statement_SEMI:
  assumes "stack_ok stk" and t: "top_state stk = S_statement_SEMI"
  shows "\<exists>v2 s1 v1 rest. stk = (S_statement_SEMI, v2) # (s1, v1) # rest \<and> is_stmt_state s1 \<and>
           preds_ok s1 (top_state rest) \<and> is_stmt v1 \<and> stack_ok rest"
proof -
  from inv1 [OF assms] obtain v2 rest2 where
    stk: "stk = (S_statement_SEMI, v2) # rest2"
    and pr: "top_state rest2 = S_statement \<or> top_state rest2 = S_statement_SEMI_statement"
    and ok: "stack_ok rest2" by auto
  from pr have ne: "top_state rest2 \<noteq> S_start" and st: "is_stmt_state (top_state rest2)"
    by auto
  from inv1 [OF ok refl ne] obtain v1 rest where
    "rest2 = (top_state rest2, v1) # rest" "preds_ok (top_state rest2) (top_state rest)"
    "value_ok (top_state rest2) v1" "stack_ok rest" by auto
  with stk st show ?thesis
    by (auto simp: value_ok_stmt_state)
qed

lemma reduce_statement_list_2:
  assumes "stack_ok stk" and t: "top_state stk = S_statement_SEMI"
  shows "\<exists>stk'. reduce P_statement_list_2 stk n = (Inr stk', n) \<and> stack_ok stk'"
proof -
  from inv_statement_SEMI [OF assms] obtain v2 s1 v1 rest where
    stk: "stk = (S_statement_SEMI, v2) # (s1, v1) # rest" and s1: "is_stmt_state s1"
    and pr: "preds_ok s1 (top_state rest)" and v1: "is_stmt v1" and ok: "stack_ok rest"
    by blast
  with goto_stmt_state [OF s1 pr] show ?thesis
    by (auto simp: reduce_defs p_statement_list_2_def value_ok_stmt_state)
qed

lemma builder_ok_extend:
  "builder_ok b1 \<Longrightarrow> builder_ok b3 \<Longrightarrow> builder_ok (extend_instructions b1 b3)"
  by (simp add: builder_ok_def extend_instructions_def)

lemma reduce_statemenlist:
  assumes "stack_ok stk" and t: "top_state stk = S_statement_SEMI_statement"
  shows "\<exists>stk'. reduce P_statemenlist stk n = (Inr stk', n) \<and> stack_ok stk'"
proof -
  from inv1 [OF assms] obtain v3 rest3 where
    stk: "stk = (S_statement_SEMI_statement, v3) # rest3"
    and pr3: "top_state rest3 = S_statement_SEMI" and v3: "is_stmt v3"
    and ok3: "stack_ok rest3" by auto
  from inv_statement_SEMI [OF ok3 pr3] obtain v2 s1 v1 rest where
    rest3: "rest3 = (S_statement_SEMI, v2) # (s1, v1) # rest" and s1: "is_stmt_state s1"
    and pr: "preds_ok s1 (top_state rest)" and v1: "is_stmt v1" and ok: "stack_ok rest"
    by blast
  from v1 v3 obtain b1 b3 where b: "v1 = Ctx b1" "v3 = Ctx b3" "builder_ok b1" "builder_ok b3"
    by (auto dest!: is_stmtE)
  with stk rest3 s1 pr ok goto_stmt_state [OF s1 pr] builder_ok_extend [of b1 b3] show ?thesis
    by (auto simp: reduce_defs value_ok_stmt_state)
qed


lemma reduce_statementassign:
  assumes "stack_ok stk" and t: "top_state stk = S_register_assign_expression op"
  shows "\<exists>stk'. reduce P_statementassign stk n = (Inr stk', n) \<and> stack_ok stk'"
proof -
  from inv1 [OF assms] obtain v3 rest3 where
    stk: "stk = (S_register_assign_expression op, v3) # rest3"
    and pr3: "top_state rest3 = S_register_assign op" and v3: "is_expr v3"
    and ok3: "stack_ok rest3" by auto
  from inv1 [OF ok3 pr3] obtain v2 rest2 where
    rest3: "rest3 = (S_register_assign op, v2) # rest2"
    and pr2: "top_state rest2 = S_register" and ok2: "stack_ok rest2" by auto
  from inv1 [OF ok2 pr2] obtain v1 rest where
    rest2: "rest2 = (S_register, v1) # rest"
    and pr: "is_stmt_start (top_state rest)" and v1: "is_expr v1" and ok: "stack_ok rest"
    by auto
  from is_exprE [OF v1] obtain b1 dst where
    b1: "v1 = Ctx b1" "builder_ok b1" "val b1 = Some (VOperand dst)" "operand_ok dst" by blast
  from is_exprE [OF v3] obtain b3 src where
    b3: "v3 = Ctx b3" "builder_ok b3" "val b3 = Some (VOperand src)" "operand_ok src" by blast
  have "p_statementassign v1 v2 v3 =
      Inr (Ctx (set_value (add b3 (gen_str src dst)) (VBuilder b1)))"
    using b1 b3 by (simp add: get_value_def)
  moreover have "builder_ok (set_value (add b3 (gen_str src dst)) (VBuilder b1))"
    using b1 b3 by (simp add: builder_ok_def set_value_def add_def gen_str_def instr_ok_def)
  ultimately show ?thesis
    using stk rest3 rest2 ok pr goto_stmt_start [OF pr]
    by (auto simp: reduce_defs)
qed

lemma temporal_ok: "temporal hexagon_size n = (x, n') \<Longrightarrow> operand_ok x \<and> n' = Suc n"
  by (auto simp: temporal_def get_next_def hexagon_size_def operand_ok_def)

lemma reduce_expression_binop:
  assumes "stack_ok stk" and t: "top_state stk = S_expression_binop_expression bop"
  shows "\<exists>stk'. reduce P_expression_binop stk n = (Inr stk', Suc n) \<and> stack_ok stk'"
proof -
  from inv1 [OF assms] obtain v3 rest3 where
    stk: "stk = (S_expression_binop_expression bop, v3) # rest3"
    and pr3: "top_state rest3 = S_expression_binop bop" and v3: "is_expr v3"
    and ok3: "stack_ok rest3" by auto
  from inv1 [OF ok3 pr3] obtain v2 rest2 where
    rest3: "rest3 = (S_expression_binop bop, v2) # rest2"
    and pr2: "is_expr_state (top_state rest2)" and ok2: "stack_ok rest2" by auto
  from pr2 have ne: "top_state rest2 \<noteq> S_start" by auto
  from inv1 [OF ok2 refl ne] obtain v1 rest where
    rest2: "rest2 = (top_state rest2, v1) # rest"
    and pr: "preds_ok (top_state rest2) (top_state rest)"
    and v1': "value_ok (top_state rest2) v1" and ok: "stack_ok rest"
    by auto
  from v1' pr2 have v1: "is_expr v1" by (simp add: value_ok_expr_state)
  from is_exprE [OF v1] obtain b1 src1 where
    b1: "v1 = Ctx b1" "builder_ok b1" "val b1 = Some (VOperand src1)" "operand_ok src1" by blast
  from is_exprE [OF v3] obtain b3 src2 where
    b3: "v3 = Ctx b3" "builder_ok b3" "val b3 = Some (VOperand src2)" "operand_ok src2" by blast
  obtain dst where dst: "temporal hexagon_size n = (dst, Suc n)" "operand_ok dst"
    using temporal_ok [of n] by (cases "temporal hexagon_size n") auto
  define b where "b = set_value (add (extend_instructions b1 b3) (gen_add src1 src2 dst))
      (VOperand dst)"
  have "p_expression_binop v1 v2 v3 n = (Inr (Ctx b), Suc n)"
    using b1 b3 dst by (simp add: b_def get_value_def extend_instructions_def)
  moreover have "is_expr (Ctx b)"
    using b1 b3 dst
    by (simp add: b_def builder_ok_def set_value_def add_def gen_add_def instr_ok_def
          extend_instructions_def)
  moreover have "stk = (S_expression_binop_expression bop, v3) #
      (S_expression_binop bop, v2) # (top_state rest2, v1) # rest"
    using stk rest3 rest2 by simp
  ultimately show ?thesis
    using ok pr pr2 goto_expr_state [OF pr2 pr]
    by (auto simp: reduce_defs value_ok_expr_state)
qed

lemma reduce_ok:
  assumes "stack_ok stk" and "action (top_state stk) la = Reduce p"
  shows "\<exists>stk' n'. reduce p stk n = (Inr stk', n') \<and> stack_ok stk'"
proof (cases "top_state stk")
  case S_REG
  with assms reduce_register_reg [OF assms(1) S_REG, of n] show ?thesis
    by (auto split: if_splits option.splits)
next
  case S_expression
  with assms reduce_statement_expr [OF assms(1) S_expression, of n] show ?thesis
    by (auto split: if_splits option.splits)
next
  case S_statement_assign
  with assms reduce_statement_statementassign [OF assms(1) S_statement_assign, of n]
  show ?thesis
    by (auto split: if_splits option.splits)
next
  case S_register
  with assms reduce_expression_register [OF assms(1), of n] show ?thesis
    by (auto split: if_splits option.splits)
next
  case S_operand_register
  with assms reduce_expression_register [OF assms(1), of n] show ?thesis
    by (auto split: if_splits option.splits)
next
  case S_statement_SEMI
  with assms reduce_statement_list_2 [OF assms(1) S_statement_SEMI, of n] show ?thesis
    by (auto split: if_splits option.splits)
next
  case S_statement_SEMI_statement
  with assms reduce_statemenlist [OF assms(1) S_statement_SEMI_statement, of n] show ?thesis
    by (auto split: if_splits option.splits)
next
  case (S_expression_binop_expression bop)
  with assms reduce_expression_binop [OF assms(1) S_expression_binop_expression, of n]
  show ?thesis
    by (auto split: if_splits option.splits)
next
  case (S_register_assign_expression op)
  with assms reduce_statementassign [OF assms(1) S_register_assign_expression, of n]
  show ?thesis
    by (auto split: if_splits option.splits)
qed (insert assms, auto split: if_splits option.splits)

declare yacc_loop.simps [simp del]

definition grammar_token :: "tok_type \<Rightarrow> bool" where
  "grammar_token ty = (ty = REG \<or> ty = SEMI \<or> is_binop ty \<or> is_assign ty)"

definition tok_ok :: "token \<Rightarrow> bool" where
  "tok_ok t = (type t \<noteq> REG \<or> is_name (TokV (tvalue t)))"

definition result_ok :: "token list \<Rightarrow> error option \<Rightarrow> error + sym_value \<Rightarrow> bool" where
  "result_ok toks fin r =
     (case r of
        Inr v \<Rightarrow> fin = None \<and> is_stmt v \<and> list_all (\<lambda>t. grammar_token (type t)) toks
      | Inl e \<Rightarrow> fin = Some e \<or> (\<exists>t \<in> set toks. e = SyntaxError (Some (tvalue t)))
                 \<or> (fin = None \<and> e = SyntaxError None))"

lemma action_Shift_token: "action s la = Shift s' \<Longrightarrow> \<exists>ty. la = Some ty \<and> grammar_token ty"
  by (cases s) (auto simp: grammar_token_def ends_statement_def split: if_splits option.splits)

lemma action_Accept: "action s la = Accept \<Longrightarrow> s = S_statement \<and> la = None"
  by (cases s) (auto simp: ends_statement_def split: if_splits option.splits)

lemma result_ok_Cons:
  "result_ok ts fin r \<Longrightarrow> grammar_token (type t) \<Longrightarrow> result_ok (t # ts) fin r"
  by (auto simp: result_ok_def split: sum.splits)

lemma yacc_loop_fin: "yacc_loop stk [] (Some e) n = (Inl e, n)"
  by (subst yacc_loop.simps) simp

lemma yacc_loop_Shift:
  "action (top_state stk) (Some (type t)) = Shift s \<Longrightarrow>
   yacc_loop stk (t # ts) fin n = yacc_loop ((s, TokV (tvalue t)) # stk) ts fin n"
  by (subst yacc_loop.simps) (simp add: lookahead_def)

lemma yacc_loop_Reduce:
  "toks \<noteq> [] \<or> fin = None \<Longrightarrow> action (top_state stk) (lookahead toks) = Reduce p \<Longrightarrow>
   reduce p stk n = (Inr stk', m) \<Longrightarrow>
   yacc_loop stk toks fin n = yacc_loop stk' toks fin m"
  by (subst yacc_loop.simps) auto

lemma yacc_loop_Accept:
  "action (top_state stk) None = Accept \<Longrightarrow> stk = (s, v) # rest \<Longrightarrow>
   yacc_loop stk [] None n = (Inr v, n)"
  by (subst yacc_loop.simps) (simp add: lookahead_def)

lemma yacc_loop_Err:
  "toks \<noteq> [] \<or> fin = None \<Longrightarrow> action (top_state stk) (lookahead toks) = Err \<Longrightarrow>
   yacc_loop stk toks fin n =
     (Inl (SyntaxError (case toks of [] \<Rightarrow> None | t # ts \<Rightarrow> Some (tvalue t))), n)"
  by (subst yacc_loop.simps) auto

lemma yacc_loop_result:
  "stack_ok stk \<Longrightarrow> list_all tok_ok toks \<Longrightarrow> yacc_loop stk toks fin n = (r, n') \<Longrightarrow>
   result_ok toks fin r"
proof (induction stk toks fin n arbitrary: r n' rule: yacc_loop.induct)
  case (1 stk toks fin n)
  note ok = "1.prems"(1) and toks_ok = "1.prems"(2) and run = "1.prems"(3)
  show ?case
  proof (cases "toks = [] \<and> fin \<noteq> None")
    case True
    with run show ?thesis
      by (auto simp: yacc_loop_fin result_ok_def)
  next
    case nf: False
    then have nf': "toks \<noteq> [] \<or> fin = None" by simp
    show ?thesis
    proof (cases "action (top_state stk) (lookahead toks)")
      case (Shift s)
      from action_Shift_token [OF Shift] obtain t ts where
        toks: "toks = t # ts" and g: "grammar_token (type t)"
        by (cases toks) (auto simp: lookahead_def)
      from Shift toks have ty: "action (top_state stk) (Some (type t)) = Shift s"
        by (simp add: lookahead_def)
      have "stack_ok ((s, TokV (tvalue t)) # stk)"
        using shift_ok [OF ok ty] toks_ok toks by (auto simp: tok_ok_def)
      moreover have "list_all tok_ok ts"
        using toks_ok toks by simp
      moreover have "yacc_loop ((s, TokV (tvalue t)) # stk) ts fin n = (r, n')"
        using run toks yacc_loop_Shift [OF ty] by simp
      ultimately have "result_ok ts fin r"
        by (rule "1.IH"(1) [OF nf Shift toks])
      with g toks show ?thesis
        by (simp add: result_ok_Cons)
    next
      case (Reduce p)
      from reduce_ok [OF ok Reduce, of n] obtain stk' m where
        red: "reduce p stk n = (Inr stk', m)" and ok': "stack_ok stk'" by blast
      have "yacc_loop stk' toks fin m = (r, n')"
        using run yacc_loop_Reduce [OF nf' Reduce red] by simp
      with ok' toks_ok show ?thesis
        by (rule "1.IH"(2) [OF nf Reduce red [symmetric] refl])
    next
      case Accept
      from action_Accept [OF Accept] have top: "top_state stk = S_statement"
        and la: "lookahead toks = None" by auto
      from la have toks: "toks = []"
        by (cases toks) (auto simp: lookahead_def)
      with nf have fin: "fin = None" by simp
      from inv1 [OF ok top] obtain v rest where
        stk: "stk = (S_statement, v) # rest" and v: "is_stmt v" by auto
      from run Accept stk toks fin la have "r = Inr v"
        using yacc_loop_Accept [of stk S_statement v rest n] by simp
      with v fin toks show ?thesis
        by (simp add: result_ok_def)
    next
      case Err
      from run yacc_loop_Err [OF nf' Err, of n] have
        r: "r = Inl (SyntaxError (case toks of [] \<Rightarrow> None | t # ts \<Rightarrow> Some (tvalue t)))"
        by simp
      show ?thesis
      proof (cases toks)
        case Nil
        with nf r show ?thesis by (simp add: result_ok_def)
      next
        case (Cons t ts)
        with r show ?thesis by (simp add: result_ok_def)
      qed
    qed
  qed
qed

lemma rule_action_tok_ok: "rule_action x y = Inr (Some tok) \<Longrightarrow> tok_ok tok"
  by (cases x) (auto simp: tok_ok_def t_IMM_def split: option.splits sum.splits)

lemma lex_tokens_ok: "list_all tok_ok (fst (lex_tokens s))"
proof (induction s rule: lex_tokens.induct)
  case 1
  show ?case by (simp add: lex_tokens.simps)
next
  case (2 c cs)
  then show ?case
    by (auto simp: lex_tokens.simps split: option.splits sum.splits prod.splits
          dest: rule_action_tok_ok)
qed

lemma parse_result:
  assumes "parse s n = (r, n')"
  shows "result_ok (fst (lex_tokens s)) (snd (lex_tokens s)) r"
proof -
  obtain toks fin where l: "lex_tokens s = (toks, fin)"
    by (cases "lex_tokens s")
  from lex_tokens_ok [of s] l have "list_all tok_ok toks" by simp
  moreover from assms l have "yacc_loop [] toks fin n = (r, n')"
    by (simp add: parse_def)
  ultimately have "result_ok toks fin r"
    using yacc_loop_result [of "[]"] by simp
  with l show ?thesis by simp
qed

section \<open>Running the translator on inputs\<close>

text \<open>The definitions that the simplifier unfolds to run the lexer and the parser.\<close>

lemmas lex_defs = lex_tokens.simps master_match_def master_rules_def function_rules_def
  string_rules_def re_newline_def re_literal_def re_IMM_def t_IMM_def int16_def hex_digit_def
  is_word_def is_hex_def is_reg_letter_def t_ignore_def Let_def

lemmas action_defs = p_statement_expr_def p_statement_list_2_def
  p_statement_statementassign_def p_expression_register_def
  set_value_def get_value_def add_def extend_instructions_def HexagonTranslationBuilder_def
  temporal_def get_next_def gen_add_def gen_str_def hexagon_size_def

lemmas yacc_sym_defs = yacc_loop.simps lookahead_def reduce_def run_action_def push_goto_def
  ends_statement_def action_defs

lemmas yacc_defs = yacc_sym_defs is_binop_def is_assign_def

lemma lex_Rd_Rs_plus_Rt: "lex_tokens ''Rd=Rs+Rt;'' =
  ([Token REG (VStr ''Rd''), Token EQUALS (VStr ''=''), Token REG (VStr ''Rs''),
    Token PLUS (VStr ''+''), Token REG (VStr ''Rt''), Token SEMI (VStr '';'')], None)"
  by (simp add: lex_defs)

lemma lex_Rd_1F: "lex_tokens ''Rd=1F;'' =
  ([Token REG (VStr ''Rd''), Token EQUALS (VStr ''=''), Token IMM (VInt 31),
    Token SEMI (VStr '';'')], None)"
  by (simp add: lex_defs)

lemma lex_A_B_C_D: "lex_tokens ''A=B;C=D;'' =
  ([Token IMM (VInt 10), Token EQUALS (VStr ''=''), Token IMM (VInt 11),
    Token SEMI (VStr '';''), Token IMM (VInt 12), Token EQUALS (VStr ''=''),
    Token IMM (VInt 13), Token SEMI (VStr '';'')], None)"
  by (simp add: lex_defs)

lemma lex_Ra_Rb_Rc_Rd: "lex_tokens ''Ra=Rb;Rc=Rd;'' =
  ([Token REG (VStr ''Ra''), Token EQUALS (VStr ''=''), Token REG (VStr ''Rb''),
    Token SEMI (VStr '';''), Token REG (VStr ''Rc''), Token EQUALS (VStr ''=''),
    Token REG (VStr ''Rd''), Token SEMI (VStr '';'')], None)"
  by (simp add: lex_defs)

lemma lex_Rd_Rs_at_Rt: "lex_tokens ''Rd=Rs@Rt;'' =
  ([Token REG (VStr ''Rd''), Token EQUALS (VStr ''=''), Token REG (VStr ''Rs'')],
   Some (IllegalCharacter CHR ''@'' ''@Rt;''))"
  by (simp add: lex_defs)

lemma lex_semi_at: "lex_tokens '';@'' =
  ([Token SEMI (VStr '';'')], Some (IllegalCharacter CHR ''@'' ''@''))"
  by (simp add: lex_defs)

lemma parse_Rd_Rs_at_Rt:
  "parse ''Rd=Rs@Rt;'' n = (Inl (IllegalCharacter CHR ''@'' ''@Rt;''), n)"
  unfolding parse_def lex_Rd_Rs_at_Rt by (simp add: yacc_defs)

lemma parse_Rd_Rs_plus_Rt:
  "parse ''Rd=Rs+Rt;'' n =
    (Inr (Ctx (Builder
       [Instr ADD [Register ''Rs'' 32, Register ''Rt'' 32] (Temporary (fst (get_next n)) 32),
        Instr STORE [Temporary (fst (get_next n)) 32] (Register ''Rd'' 32)]
       (Some (VBuilder (Builder [] (Some (VOperand (Register ''Rd'' 32)))))))), Suc n)"
  unfolding parse_def lex_Rd_Rs_plus_Rt by (simp add: yacc_defs)

lemma parse_Ra_Rb_Rc_Rd:
  "parse ''Ra=Rb;Rc=Rd;'' n =
    (Inr (Ctx (Builder
       [Instr STORE [Register ''Rb'' 32] (Register ''Ra'' 32),
        Instr STORE [Register ''Rd'' 32] (Register ''Rc'' 32)]
       (Some (VBuilder (Builder [] (Some (VOperand (Register ''Ra'' 32)))))))), n)"
  unfolding parse_def lex_Ra_Rb_Rc_Rd by (simp add: yacc_defs)

lemma get_next_0: "fst (get_next 0) = ''t0''"
  by (simp add: get_next_def str_nat.simps digit_char_def)

lemma is_assign_EQUALS: "is_assign EQUALS"
  by (simp add: is_assign_def)

lemma yacc_assign_binop:
  assumes "is_binop bop"
  shows "yacc_loop []
      [Token REG (VStr d), Token EQUALS e, Token REG (VStr s), Token bop v,
       Token REG (VStr t), Token SEMI sc] None n =
    (Inr (Ctx (Builder
       [Instr ADD [Register s 32, Register t 32] (Temporary (fst (get_next n)) 32),
        Instr STORE [Temporary (fst (get_next n)) 32] (Register d 32)]
       (Some (VBuilder (Builder [] (Some (VOperand (Register d 32)))))))), Suc n)"
  using assms is_binop_not_assign [OF assms] by (simp add: yacc_sym_defs is_assign_EQUALS)

lemma parse_binop_strings:
  "list_all (\<lambda>(lit, ty). \<not> is_binop ty \<or>
       parse (''Rd=Rs'' @ lit @ ''Rt;'') n = parse ''Rd=Rs+Rt;'' n) string_rules"
  unfolding string_rules_def
  by (simp add: is_binop_def parse_def lex_defs yacc_defs)

lemma re_sub_0x_hex: "list_all is_hex s \<Longrightarrow> re_sub_0x s = s"
  by (induction s rule: re_sub_0x.induct) (auto simp: is_hex_def)

lemma is_hex_takeWhile: "list_all is_hex (takeWhile is_hex s)"
  by (induction s) auto

lemma t_IMM_hex:
  assumes "ds \<noteq> []" and "list_all is_hex ds"
  shows "t_IMM ds = Inr (Token IMM (VInt (foldl (\<lambda>acc c. 16 * acc + hex_digit c) 0 ds)))"
    and "t_IMM (''0x'' @ ds) = t_IMM ds"
  using assms by (simp_all add: t_IMM_def int16_def re_sub_0x_hex)

section \<open>The claims\<close>

text \<open>
  C1. For the input \<^verbatim>\<open>Rd=Rs+Rt;\<close>, \<open>parse\<close> produces exactly two instructions in this order:
  an ADD of the register operands Rs and Rt into a freshly allocated temporary, then a
  STORE of that temporary into the register operand Rd. Whatever the counter of the name
  generator is, the name of the temporary is none of the register names of the input; on
  a counter that starts at zero it is \<^verbatim>\<open>t0\<close>.
\<close>

theorem parse_add_example:
  "parse ''Rd=Rs+Rt;'' n =
    (Inr (Ctx (Builder
       [Instr ADD [Register ''Rs'' 32, Register ''Rt'' 32] (Temporary (fst (get_next n)) 32),
        Instr STORE [Temporary (fst (get_next n)) 32] (Register ''Rd'' 32)]
       (Some (VBuilder (Builder [] (Some (VOperand (Register ''Rd'' 32)))))))), Suc n)
   \<and> fst (get_next n) \<notin> {''Rd'', ''Rs'', ''Rt''}
   \<and> fst (get_next 0) = ''t0''"
proof -
  have "fst (get_next n) \<notin> {''Rd'', ''Rs'', ''Rt''}"
    by (simp add: get_next_def)
  with parse_Rd_Rs_plus_Rt [of n] get_next_0 show ?thesis by blast
qed

text \<open>
  C2. The claim is that the value returned by \<open>parse\<close> is itself the list of
  instructions. The code returns the builder that the start symbol carries, as the
  docstring of \<^verbatim>\<open>Parser.parse\<close> notes among its TODOs: every successful parse returns a
  builder, and the caller reads the instructions out of it.
\<close>

theorem parse_returns_builder: "parse s n = (Inr v, n') \<Longrightarrow> \<exists>b. v = Ctx b"
  by (drule parse_result) (auto simp: result_ok_def dest: is_stmtE)

theorem parse_returns_builder_witness:
  "parse ''Ra=Rb;Rc=Rd;'' 0 =
    (Inr (Ctx (Builder
       [Instr STORE [Register ''Rb'' 32] (Register ''Ra'' 32),
        Instr STORE [Register ''Rd'' 32] (Register ''Rc'' 32)]
       (Some (VBuilder (Builder [] (Some (VOperand (Register ''Ra'' 32)))))))), 0)
   \<and> (\<exists>b. Ctx (Builder
       [Instr STORE [Register ''Rb'' 32] (Register ''Ra'' 32),
        Instr STORE [Register ''Rd'' 32] (Register ''Rc'' 32)]
       (Some (VBuilder (Builder [] (Some (VOperand (Register ''Ra'' 32))))))) = Ctx b)"
proof -
  have h: "parse ''Ra=Rb;Rc=Rd;'' 0 =
    (Inr (Ctx (Builder
       [Instr STORE [Register ''Rb'' 32] (Register ''Ra'' 32),
        Instr STORE [Register ''Rd'' 32] (Register ''Rc'' 32)]
       (Some (VBuilder (Builder [] (Some (VOperand (Register ''Ra'' 32)))))))), 0)"
    by (rule parse_Ra_Rb_Rc_Rd)
  from h parse_returns_builder [OF h] show ?thesis by simp
qed

text \<open>
  C3. For every assignment operator, the action of an assignment statement appends one
  STORE of the value of the expression into the register operand to the instructions of
  the expression. The claim is that afterwards the value of the context is the register
  operand; the code stores \<^verbatim>\<open>p[1]\<close>, the builder of the left-hand side, and not the
  operand \<^verbatim>\<open>p[1].get_value()\<close>.
\<close>

theorem statementassign_stores_builder:
  "val b1 = Some (VOperand dst) \<Longrightarrow> val b3 = Some (VOperand src) \<Longrightarrow>
   p_statementassign (Ctx b1) p2 (Ctx b3) =
     Inr (Ctx (Builder (instructions b3 @ [Instr STORE [src] dst]) (Some (VBuilder b1))))"
  by (simp add: get_value_def set_value_def add_def gen_str_def)

theorem statementassign_stores_builder_witness:
  "val (Builder [] (Some (VOperand (Register ''Rd'' 32)))) = Some (VOperand (Register ''Rd'' 32))
   \<and> val (Builder [] (Some (VOperand (Register ''Rs'' 32)))) = Some (VOperand (Register ''Rs'' 32))
   \<and> p_statementassign (Ctx (Builder [] (Some (VOperand (Register ''Rd'' 32)))))
        (TokV (VStr ''+='')) (Ctx (Builder [] (Some (VOperand (Register ''Rs'' 32))))) =
      Inr (Ctx (Builder [Instr STORE [Register ''Rs'' 32] (Register ''Rd'' 32)]
        (Some (VBuilder (Builder [] (Some (VOperand (Register ''Rd'' 32))))))))
   \<and> Some (VBuilder (Builder [] (Some (VOperand (Register ''Rd'' 32))))) \<noteq>
       Some (VOperand (Register ''Rd'' 32))"
  using statementassign_stores_builder
    [of "Builder [] (Some (VOperand (Register ''Rd'' 32)))" "Register ''Rd'' 32"
        "Builder [] (Some (VOperand (Register ''Rs'' 32)))" "Register ''Rs'' 32"
        "TokV (VStr ''+='')"]
  by simp

text \<open>
  C4. Between the same two register operands every accepted binary operator token gives
  the same instructions: the binary instruction emitted is an ADD whatever the operator.
  This holds for token streams with any register names, and for the input
  \<^verbatim>\<open>Rd=Rs\<close> \<open>op\<close> \<^verbatim>\<open>Rt;\<close> with each of the seventeen operators written out.
\<close>

theorem binop_opcode_uniform:
  assumes "is_binop op1" and "is_binop op2"
  shows "yacc_loop []
      [Token REG (VStr d), Token EQUALS e, Token REG (VStr s), Token op1 v1,
       Token REG (VStr t), Token SEMI sc] None n =
    yacc_loop []
      [Token REG (VStr d), Token EQUALS e, Token REG (VStr s), Token op2 v2,
       Token REG (VStr t), Token SEMI sc] None n
   \<and> yacc_loop []
      [Token REG (VStr d), Token EQUALS e, Token REG (VStr s), Token op1 v1,
       Token REG (VStr t), Token SEMI sc] None n =
    (Inr (Ctx (Builder
       [Instr ADD [Register s 32, Register t 32] (Temporary (fst (get_next n)) 32),
        Instr STORE [Temporary (fst (get_next n)) 32] (Register d 32)]
       (Some (VBuilder (Builder [] (Some (VOperand (Register d 32)))))))), Suc n)
   \<and> list_all (\<lambda>(lit, ty). \<not> is_binop ty \<or>
       parse (''Rd=Rs'' @ lit @ ''Rt;'') n = parse ''Rd=Rs+Rt;'' n) string_rules"
  using yacc_assign_binop [OF assms(1)] yacc_assign_binop [OF assms(2)] parse_binop_strings
  by simp

theorem binop_opcode_uniform_witness:
  "is_binop MINUS \<and> is_binop AND \<and>
   yacc_loop []
      [Token REG (VStr ''Rd''), Token EQUALS (VStr ''=''), Token REG (VStr ''Rs''),
       Token MINUS (VStr ''-''), Token REG (VStr ''Rt''), Token SEMI (VStr '';'')] None 0 =
    yacc_loop []
      [Token REG (VStr ''Rd''), Token EQUALS (VStr ''=''), Token REG (VStr ''Rs''),
       Token AND (VStr ''&''), Token REG (VStr ''Rt''), Token SEMI (VStr '';'')] None 0
   \<and> yacc_loop []
      [Token REG (VStr ''Rd''), Token EQUALS (VStr ''=''), Token REG (VStr ''Rs''),
       Token MINUS (VStr ''-''), Token REG (VStr ''Rt''), Token SEMI (VStr '';'')] None 0 =
    (Inr (Ctx (Builder
       [Instr ADD [Register ''Rs'' 32, Register ''Rt'' 32]
          (Temporary (fst (get_next 0)) 32),
        Instr STORE [Temporary (fst (get_next 0)) 32] (Register ''Rd'' 32)]
       (Some (VBuilder (Builder [] (Some (VOperand (Register ''Rd'' 32)))))))), Suc 0)"
proof -
  have h1: "is_binop MINUS" and h2: "is_binop AND"
    by (simp_all add: is_binop_def)
  from h1 h2
    binop_opcode_uniform [OF h1 h2, of "''Rd''" "VStr ''=''" "''Rs''" "VStr ''-''" "''Rt''"
      "VStr '';''" 0 "VStr ''&''"]
  show ?thesis by blast
qed

text \<open>
  C5. The lexer reads every immediate literal in hexadecimal after stripping an optional
  \<^verbatim>\<open>0x\<close>: a lexeme matched by the immediate rule is a run of hexadecimal digits, with or
  without the prefix, and its token carries the base-16 value of the digits. \<^verbatim>\<open>0x1F\<close> and
  \<^verbatim>\<open>1F\<close> both lex to the immediate 31, and \<^verbatim>\<open>10\<close> lexes to 16.
\<close>

theorem immediates_are_hexadecimal:
  "(\<forall>s m. re_IMM s = Some m \<longrightarrow>
      (\<exists>ds. ds \<noteq> [] \<and> list_all is_hex ds \<and> (m = ds \<or> m = ''0x'' @ ds) \<and>
         t_IMM m = Inr (Token IMM (VInt (foldl (\<lambda>acc c. 16 * acc + hex_digit c) 0 ds)))))
   \<and> lex_tokens ''0x1F'' = ([Token IMM (VInt 31)], None)
   \<and> lex_tokens ''1F'' = ([Token IMM (VInt 31)], None)
   \<and> lex_tokens ''10'' = ([Token IMM (VInt 16)], None)"
proof (intro conjI allI impI)
  fix s m
  assume m: "re_IMM s = Some m"
  define ds where "ds = (if m = takeWhile is_hex s then m else drop 2 m)"
  from m have "ds \<noteq> [] \<and> list_all is_hex ds \<and> (m = ds \<or> m = ''0x'' @ ds)"
    by (auto simp: re_IMM_def Let_def ds_def is_hex_takeWhile split: option.splits if_splits)
  with t_IMM_hex [of ds] show "\<exists>ds. ds \<noteq> [] \<and> list_all is_hex ds \<and> (m = ds \<or> m = ''0x'' @ ds) \<and>
         t_IMM m = Inr (Token IMM (VInt (foldl (\<lambda>acc c. 16 * acc + hex_digit c) 0 ds)))"
    by auto
next
  show "lex_tokens ''0x1F'' = ([Token IMM (VInt 31)], None)" by (simp add: lex_defs)
next
  show "lex_tokens ''1F'' = ([Token IMM (VInt 31)], None)" by (simp add: lex_defs)
next
  show "lex_tokens ''10'' = ([Token IMM (VInt 16)], None)" by (simp add: lex_defs)
qed

theorem immediates_are_hexadecimal_witness:
  "re_IMM ''0x1F;'' = Some ''0x1F'' \<and>
   (\<exists>ds. ds \<noteq> [] \<and> list_all is_hex ds \<and> (''0x1F'' = ds \<or> ''0x1F'' = ''0x'' @ ds) \<and>
      t_IMM ''0x1F'' = Inr (Token IMM (VInt (foldl (\<lambda>acc c. 16 * acc + hex_digit c) 0 ds))))"
proof -
  have h: "re_IMM ''0x1F;'' = Some ''0x1F''"
    by (simp add: re_IMM_def is_hex_def)
  from immediates_are_hexadecimal have
    "\<forall>s m. re_IMM s = Some m \<longrightarrow>
      (\<exists>ds. ds \<noteq> [] \<and> list_all is_hex ds \<and> (m = ds \<or> m = ''0x'' @ ds) \<and>
         t_IMM m = Inr (Token IMM (VInt (foldl (\<lambda>acc c. 16 * acc + hex_digit c) 0 ds))))"
    by (rule conjunct1)
  with h show ?thesis by blast
qed

text \<open>
  C6 (amended). Immediate literals are tokens of the lexer, but no production of the
  grammar accepts one: every input in which the lexer finds an immediate is rejected.
\<close>

theorem immediates_rejected:
  "t \<in> set (fst (lex_tokens s)) \<Longrightarrow> type t = IMM \<Longrightarrow> \<exists>e. fst (parse s n) = Inl e"
proof -
  assume t: "t \<in> set (fst (lex_tokens s))" and imm: "type t = IMM"
  obtain r n' where p: "parse s n = (r, n')" by (cases "parse s n")
  have "\<not> grammar_token IMM"
    by (simp add: grammar_token_def is_binop_def is_assign_def)
  with imm have "\<not> grammar_token (type t)" by simp
  with t have "\<not> list_all (\<lambda>t. grammar_token (type t)) (fst (lex_tokens s))"
    by (auto simp: list_all_iff)
  with parse_result [OF p] obtain e where "r = Inl e"
    by (cases r) (auto simp: result_ok_def)
  with p show ?thesis by simp
qed

theorem immediates_rejected_witness:
  "Token IMM (VInt 31) \<in> set (fst (lex_tokens ''Rd=1F;'')) \<and> type (Token IMM (VInt 31)) = IMM
   \<and> (\<exists>e. fst (parse ''Rd=1F;'' 0) = Inl e)"
proof -
  have h: "Token IMM (VInt 31) \<in> set (fst (lex_tokens ''Rd=1F;''))"
    unfolding lex_Rd_1F by simp
  have i: "type (Token IMM (VInt 31)) = IMM" by simp
  from h i immediates_rejected [OF h i] show ?thesis by blast
qed

text \<open>C6 as claimed fails on its own example: \<^verbatim>\<open>Rd=1F;\<close> is a syntax error at the
  immediate 31.\<close>

theorem immediate_example_rejected:
  "parse ''Rd=1F;'' 0 = (Inl (SyntaxError (Some (VInt 31))), 0)"
  unfolding parse_def lex_Rd_1F by (simp add: yacc_defs)

text \<open>
  C7 (amended). For the input \<^verbatim>\<open>Ra=Rb;Rc=Rd;\<close>, two assignments between registers, the
  STORE of the first assignment comes before the STORE of the second.
\<close>

theorem store_order_preserved:
  "parse ''Ra=Rb;Rc=Rd;'' n =
    (Inr (Ctx (Builder
       [Instr STORE [Register ''Rb'' 32] (Register ''Ra'' 32),
        Instr STORE [Register ''Rd'' 32] (Register ''Rc'' 32)]
       (Some (VBuilder (Builder [] (Some (VOperand (Register ''Ra'' 32)))))))), n)"
  by (rule parse_Ra_Rb_Rc_Rd)

text \<open>C7 as claimed fails: in \<^verbatim>\<open>A=B;C=D;\<close> the names are no registers; \<^verbatim>\<open>A\<close> lexes as the
  immediate 10, and the parse stops there with a syntax error.\<close>

theorem order_example_rejected:
  "parse ''A=B;C=D;'' 0 = (Inl (SyntaxError (Some (VInt 10))), 0)"
  unfolding parse_def lex_A_B_C_D by (simp add: yacc_defs)

text \<open>
  C8 (amended). When the lexer meets a character that no rule matches, \<open>parse\<close> returns no
  instructions: it raises the illegal-character error with that character and the rest
  of the input, unless the parser has raised a syntax error at a token before it.
\<close>

theorem illegal_character_aborts:
  assumes "snd (lex_tokens s) = Some (IllegalCharacter c rest)"
  shows "fst (parse s n) = Inl (IllegalCharacter c rest) \<or>
         (\<exists>t \<in> set (fst (lex_tokens s)). fst (parse s n) = Inl (SyntaxError (Some (tvalue t))))"
proof -
  obtain r n' where p: "parse s n = (r, n')" by (cases "parse s n")
  from parse_result [OF p] assms have
    "r = Inl (IllegalCharacter c rest) \<or>
     (\<exists>t \<in> set (fst (lex_tokens s)). r = Inl (SyntaxError (Some (tvalue t))))"
    by (cases r) (auto simp: result_ok_def)
  with p show ?thesis by simp
qed

theorem illegal_character_aborts_witness:
  "snd (lex_tokens ''Rd=Rs@Rt;'') = Some (IllegalCharacter CHR ''@'' ''@Rt;'') \<and>
   parse ''Rd=Rs@Rt;'' 0 = (Inl (IllegalCharacter CHR ''@'' ''@Rt;''), 0) \<and>
   (fst (parse ''Rd=Rs@Rt;'' 0) = Inl (IllegalCharacter CHR ''@'' ''@Rt;'') \<or>
    (\<exists>t \<in> set (fst (lex_tokens ''Rd=Rs@Rt;'')).
       fst (parse ''Rd=Rs@Rt;'' 0) = Inl (SyntaxError (Some (tvalue t)))))"
proof -
  have h: "snd (lex_tokens ''Rd=Rs@Rt;'') = Some (IllegalCharacter CHR ''@'' ''@Rt;'')"
    unfolding lex_Rd_Rs_at_Rt by simp
  from h illegal_character_aborts [OF h, of 0] parse_Rd_Rs_at_Rt [of 0] show ?thesis
    by blast
qed

text \<open>C8 as claimed fails: \<^verbatim>\<open>;@\<close> contains the illegal character \<^verbatim>\<open>@\<close>, but the error
  raised is the syntax error at the semicolon before it.\<close>

theorem syntax_error_before_illegal_character:
  "snd (lex_tokens '';@'') = Some (IllegalCharacter CHR ''@'' ''@'') \<and>
   parse '';@'' 0 = (Inl (SyntaxError (Some (VStr '';''))), 0)"
  unfolding parse_def lex_semi_at by (simp add: yacc_defs)

text \<open>
  C9. On a new builder on which \<^verbatim>\<open>set_value\<close> has never been called, \<^verbatim>\<open>get_value\<close> fails
  with \<^verbatim>\<open>UnexpectedException\<close>, also after instructions have been added.
\<close>

theorem unset_value_fails: "never_set b \<Longrightarrow> get_value b = Inl UnexpectedException"
proof -
  assume "never_set b"
  then have "val b = None"
    by induction (simp_all add: HexagonTranslationBuilder_def add_def extend_instructions_def)
  then show ?thesis by (simp add: get_value_def)
qed

theorem unset_value_fails_witness:
  "never_set (extend_instructions (add HexagonTranslationBuilder
       (gen_str (Register ''Rs'' 32) (Register ''Rd'' 32))) HexagonTranslationBuilder)
   \<and> get_value (extend_instructions (add HexagonTranslationBuilder
       (gen_str (Register ''Rs'' 32) (Register ''Rd'' 32))) HexagonTranslationBuilder)
     = Inl UnexpectedException"
proof -
  have h: "never_set (extend_instructions (add HexagonTranslationBuilder
       (gen_str (Register ''Rs'' 32) (Register ''Rd'' 32))) HexagonTranslationBuilder)"
    by (intro never_set.intros)
  from h unset_value_fails [OF h] show ?thesis by simp
qed

text \<open>
  C10. Every operand of every instruction that a successful parse returns has width 32.
\<close>

theorem operand_width_32:
  assumes "parse s n = (Inr v, n')"
  shows "\<exists>b. v = Ctx b \<and>
           list_all (\<lambda>i. operand_size (dest i) = 32 \<and>
                          list_all (\<lambda>x. operand_size x = 32) (sources i)) (instructions b)"
proof -
  from parse_result [OF assms] have "is_stmt v"
    by (simp add: result_ok_def)
  then obtain b where "v = Ctx b" "builder_ok b"
    by (auto dest: is_stmtE)
  then show ?thesis
    by (auto simp: builder_ok_def instr_ok_def operand_ok_def list_all_iff)
qed

theorem operand_width_32_witness:
  "parse ''Rd=Rs+Rt;'' 0 =
    (Inr (Ctx (Builder
       [Instr ADD [Register ''Rs'' 32, Register ''Rt'' 32] (Temporary ''t0'' 32),
        Instr STORE [Temporary ''t0'' 32] (Register ''Rd'' 32)]
       (Some (VBuilder (Builder [] (Some (VOperand (Register ''Rd'' 32)))))))), 1)
   \<and> (\<exists>b. Ctx (Builder
       [Instr ADD [Register ''Rs'' 32, Register ''Rt'' 32] (Temporary ''t0'' 32),
        Instr STORE [Temporary ''t0'' 32] (Register ''Rd'' 32)]
       (Some (VBuilder (Builder [] (Some (VOperand (Register ''Rd'' 32))))))) = Ctx b \<and>
           list_all (\<lambda>i. operand_size (dest i) = 32 \<and>
                          list_all (\<lambda>x. operand_size x = 32) (sources i)) (instructions b))"
proof -
  have h: "parse ''Rd=Rs+Rt;'' 0 =
    (Inr (Ctx (Builder
       [Instr ADD [Register ''Rs'' 32, Register ''Rt'' 32] (Temporary ''t0'' 32),
        Instr STORE [Temporary ''t0'' 32] (Register ''Rd'' 32)]
       (Some (VBuilder (Builder [] (Some (VOperand (Register ''Rd'' 32)))))))), 1)"
    using parse_Rd_Rs_plus_Rt [of 0] get_next_0 by simp
  from h operand_width_32 [OF h] show ?thesis by blast
qed

end
